theory Spec2Isabelle
  imports Main "HOL-Library.Sublist"
begin

section \<open>The document hierarchy of doc\_manager.py\<close>

text \<open>
  The script defines an abstract class \<open>Document\<close> with two concrete subclasses,
  \<open>PDFDocument\<close> and \<open>WordDocument\<close>, a function \<open>process_document\<close> and a main
  block. Nothing is read from or written to a file: every effect is a call of
  \<open>print\<close> or an assignment to the attribute \<open>_content\<close>.

  The embedding passes the object and the standard output explicitly. A method
  takes the pair of \<open>self\<close> and the output written so far and returns the pair
  after the call. The attribute \<open>_content\<close> is written \<open>content\<close> (an Isabelle name
  cannot start with an underscore); Python's \<open>None\<close> there is \<open>None\<close>, a loaded text
  \<open>s\<close> is \<open>Some s\<close>.
\<close>

subsection \<open>Classes and instances\<close>

text \<open>The two concrete subclasses, which are the classes an instance can have.\<close>

datatype variant = PDFDocument | WordDocument

text \<open>The classes of the module: the abstract base and the two subclasses.\<close>

datatype cls = Document | Concrete variant

text \<open>The only exception the script can raise.\<close>

datatype py_error = TypeError

record document =
  kind :: variant
  filename :: string
  content :: "string option"

text \<open>
  Standard output, as the list of the texts handed to \<open>print\<close>, oldest first.
  \<open>print\<close> writes its argument and a newline; \<open>rendered\<close> is the character
  stream that results.
\<close>

type_synonym stdout = "string list"

type_synonym world = "document \<times> stdout"

definition print :: "string \<Rightarrow> stdout \<Rightarrow> stdout" where
  "print s out = out @ [s]"

definition rendered :: "stdout \<Rightarrow> string" where
  "rendered out = concat (map (\<lambda>s. s @ ''\<newline>'') out)"

text \<open>A text between two apostrophes, as the f-strings write \<open>'{self.filename}'\<close>.\<close>

definition quoted :: "string \<Rightarrow> string" where
  "quoted s = [CHR 0x27] @ s @ [CHR 0x27]"

text \<open>How an f-string formats the attribute \<open>_content\<close>: \<open>None\<close> prints as its name.\<close>

fun format_content :: "string option \<Rightarrow> string" where
  "format_content None = ''None''"
| "format_content (Some s) = s"

subsection \<open>Abstract methods and construction\<close>

text \<open>
  \<open>Document\<close> derives from \<open>ABC\<close> and decorates \<open>open\<close> and \<open>save\<close> with
  \<open>abstractmethod\<close>. The metaclass computes for every class the names that are
  still abstract: those the class body marks, and those of the base that the class
  body does not define again. A class for which the list is not empty cannot be
  instantiated: the call raises \<open>TypeError\<close> before \<open>__init__\<close> runs.
\<close>

fun declared_abstract :: "cls \<Rightarrow> string list" where
  "declared_abstract Document = [''open'', ''save'']"
| "declared_abstract (Concrete v) = []"

fun defined_methods :: "cls \<Rightarrow> string list" where
  "defined_methods Document = [''__init__'', ''open'', ''save'', ''read'']"
| "defined_methods (Concrete PDFDocument) = [''open'', ''save'']"
| "defined_methods (Concrete WordDocument) = [''open'', ''save'']"

text \<open>
  The abstract names a class inherits: \<open>ABC\<close>, the base of \<open>Document\<close>, has none;
  the base of the two subclasses is \<open>Document\<close>, which inherits none itself.
\<close>

fun inherited_abstract :: "cls \<Rightarrow> string list" where
  "inherited_abstract Document = []"
| "inherited_abstract (Concrete v) = declared_abstract Document"

definition abstractmethods :: "cls \<Rightarrow> string list" where
  "abstractmethods c =
     filter (\<lambda>m. m \<notin> set (defined_methods c)) (inherited_abstract c)
       @ declared_abstract c"

text \<open>
  The test that \<open>object.__new__\<close> makes when a class is called, before any
  \<open>__init__\<close> runs: a class that still has abstract methods raises \<open>TypeError\<close>.
\<close>

definition check_abstract :: "cls \<Rightarrow> py_error + unit" where
  "check_abstract c = (if abstractmethods c = [] then Inr () else Inl TypeError)"

text \<open>\<open>Document.__init__\<close>, which both subclasses inherit.\<close>

definition init :: "variant \<Rightarrow> string \<Rightarrow> document" where
  "init v fn = \<lparr>kind = v, filename = fn, content = None\<rparr>"

text \<open>
  Calling one of the two subclasses with a file name, as \<open>PDFDocument(...)\<close> and
  \<open>WordDocument(...)\<close> do: the test, then \<open>__init__\<close>.
\<close>

definition instantiate :: "variant \<Rightarrow> string \<Rightarrow> py_error + document" where
  "instantiate v fn =
     (case check_abstract (Concrete v) of
        Inl e \<Rightarrow> Inl e
      | Inr u \<Rightarrow> Inr (init v fn))"

text \<open>
  Calling \<open>Document\<close> itself with a file name. An instance of a subclass always
  has one of the two concrete classes, so the type \<open>document\<close> has no value for an
  instance of \<open>Document\<close>; such an instance would have the two attributes that
  \<open>__init__\<close> sets and the methods of the base class only.
\<close>

record base_document =
  base_filename :: string
  base_content :: "string option"

definition instantiate_Document :: "string \<Rightarrow> py_error + base_document" where
  "instantiate_Document fn =
     (case check_abstract Document of
        Inl e \<Rightarrow> Inl e
      | Inr u \<Rightarrow> Inr \<lparr>base_filename = fn, base_content = None\<rparr>)"

subsection \<open>The methods\<close>

text \<open>The placeholder texts the two \<open>open\<close> methods assign.\<close>

definition pdf_placeholder :: string where
  "pdf_placeholder = ''This is the complex, binary-formatted content of a PDF file.''"

definition word_placeholder :: string where
  "word_placeholder = ''This is the rich-text, XML-based content of a Word document.''"

fun placeholder :: "variant \<Rightarrow> string" where
  "placeholder PDFDocument = pdf_placeholder"
| "placeholder WordDocument = word_placeholder"

text \<open>The messages of the methods, as functions of the file name.\<close>

definition pdf_open_msg :: "string \<Rightarrow> string" where
  "pdf_open_msg fn = ''Opening PDF '' @ quoted fn @ '' using a PDF reader library...''"

definition pdf_save_msg :: "string \<Rightarrow> string" where
  "pdf_save_msg fn =
     ''Saving content to PDF '' @ quoted fn @ '' with specific PDF formatting...''"

definition word_open_msg :: "string \<Rightarrow> string" where
  "word_open_msg fn =
     ''Opening Word document '' @ quoted fn @ '' using a word processor library...''"

definition word_save_msg :: "string \<Rightarrow> string" where
  "word_save_msg fn =
     ''Saving content to Word '' @ quoted fn @ '' with specific Word formatting...''"

definition not_loaded_msg :: "string \<Rightarrow> string" where
  "not_loaded_msg fn =
     ''Content for '' @ quoted fn @ '' is not loaded. Please open the document first.''"

definition framed_msg :: "string \<Rightarrow> string \<Rightarrow> string" where
  "framed_msg fn c =
     ''Reading content of '' @ quoted fn @ '':\<newline>---\<newline>'' @ c @ ''\<newline>---''"

fun open_msg :: "variant \<Rightarrow> string \<Rightarrow> string" where
  "open_msg PDFDocument fn = pdf_open_msg fn"
| "open_msg WordDocument fn = word_open_msg fn"

fun save_msg :: "variant \<Rightarrow> string \<Rightarrow> string" where
  "save_msg PDFDocument fn = pdf_save_msg fn"
| "save_msg WordDocument fn = word_save_msg fn"

text \<open>\<open>PDFDocument.open\<close> and \<open>PDFDocument.save\<close>.\<close>

fun PDFDocument_open :: "world \<Rightarrow> world" where
  "PDFDocument_open (d, out) =
     (d\<lparr>content := Some pdf_placeholder\<rparr>, print (pdf_open_msg (filename d)) out)"

fun PDFDocument_save :: "world \<Rightarrow> world" where
  "PDFDocument_save (d, out) = (d, print (pdf_save_msg (filename d)) out)"

text \<open>\<open>WordDocument.open\<close> and \<open>WordDocument.save\<close>.\<close>

fun WordDocument_open :: "world \<Rightarrow> world" where
  "WordDocument_open (d, out) =
     (d\<lparr>content := Some word_placeholder\<rparr>, print (word_open_msg (filename d)) out)"

fun WordDocument_save :: "world \<Rightarrow> world" where
  "WordDocument_save (d, out) = (d, print (word_save_msg (filename d)) out)"

text \<open>
  A call \<open>doc.open()\<close> or \<open>doc.save()\<close> runs the method of the instance's class.
  (\<open>open\<close> is a keyword of Isabelle, hence the prime.)
\<close>

fun open' :: "world \<Rightarrow> world" where
  "open' (d, out) =
     (case kind d of
        PDFDocument \<Rightarrow> PDFDocument_open (d, out)
      | WordDocument \<Rightarrow> WordDocument_open (d, out))"

fun save :: "world \<Rightarrow> world" where
  "save (d, out) =
     (case kind d of
        PDFDocument \<Rightarrow> PDFDocument_save (d, out)
      | WordDocument \<Rightarrow> WordDocument_save (d, out))"

text \<open>\<open>Document.read\<close>, shared by both subclasses.\<close>

fun read :: "world \<Rightarrow> world" where
  "read (d, out) =
     (case content d of
        None \<Rightarrow> (d, print (not_loaded_msg (filename d)) out)
      | Some c \<Rightarrow> (d, print (framed_msg (filename d) c) out))"

subsection \<open>The processing routine\<close>

definition suffix_text :: string where
  "suffix_text = ''\<newline>[Appended by processing script]''"

text \<open>
  The statement \<open>doc._content += "..."\<close>. With \<open>_content\<close> still \<open>None\<close> the
  addition of \<open>None\<close> and a string raises \<open>TypeError\<close>.
\<close>

fun append_content :: "document \<Rightarrow> string \<Rightarrow> py_error + document" where
  "append_content d s =
     (case content d of
        None \<Rightarrow> Inl TypeError
      | Some c \<Rightarrow> Inr (d\<lparr>content := Some (c @ s)\<rparr>))"

definition processing_header :: "string \<Rightarrow> string" where
  "processing_header fn = ''\<newline>--- Processing document: '' @ fn @ '' ---''"

definition finished_msg :: string where
  "finished_msg = ''--- Finished processing ---''"

fun process_document :: "world \<Rightarrow> py_error + world" where
  "process_document (doc, out) =
     (let out1 = print (processing_header (filename doc)) out;
          (doc2, out2) = open' (doc, out1);
          (doc3, out3) = read (doc2, out2)
      in case append_content doc3 suffix_text of
           Inl e \<Rightarrow> Inl e
         | Inr doc4 \<Rightarrow>
             (let (doc5, out5) = save (doc4, out3)
              in Inr (doc5, print finished_msg out5)))"

subsection \<open>The main block\<close>

text \<open>
  The loop \<open>for doc in documents_to_process: process_document(doc)\<close>. The objects
  are changed in place; here the list of the changed objects is returned. An
  exception ends the loop.
\<close>

fun process_all :: "document list \<Rightarrow> stdout \<Rightarrow> py_error + (document list \<times> stdout)" where
  "process_all [] out = Inr ([], out)"
| "process_all (doc # docs) out =
     (case process_document (doc, out) of
        Inl e \<Rightarrow> Inl e
      | Inr (doc', out') \<Rightarrow>
          (case process_all docs out' of
             Inl e \<Rightarrow> Inl e
           | Inr (docs', out'') \<Rightarrow> Inr (doc' # docs', out'')))"

text \<open>
  The main block, from an output \<open>out\<close>. The name \<open>report\<close> and the first slot of
  \<open>documents_to_process\<close> refer to one object, so the attributes the last part
  prints are those of the first processed document.
\<close>

definition main :: "stdout \<Rightarrow> py_error + (document list \<times> stdout)" where
  "main out =
     (case instantiate PDFDocument ''annual_report.pdf'' of
        Inl e \<Rightarrow> Inl e
      | Inr report \<Rightarrow>
     (case instantiate WordDocument ''team_memo.docx'' of
        Inl e \<Rightarrow> Inl e
      | Inr memo \<Rightarrow>
     (case process_all [report, memo] out of
        Inl e \<Rightarrow> Inl e
      | Inr (docs, out1) \<Rightarrow>
          (let report' = hd docs;
               out2 = print ''\<newline>--- Demonstrating Encapsulation ---'' out1;
               out3 = print (''Accessing the filename (public attribute): ''
                               @ filename report') out2;
               out4 = print (''Trying to access _content (protected attribute): ''
                               @ format_content (content report')) out3;
               out5 = print ''The leading underscore is a convention telling developers not to modify this directly.'' out4;
               out6 = print ''Instead, we should use methods like open() and save() to interact with the object's state.'' out5
           in Inr (docs, out6)))))"

subsection \<open>Sequences of calls on one document\<close>

text \<open>
  The operations a caller has on a document, and the effect of a sequence of them,
  which stops at the first exception.
\<close>

datatype op = Open | Read | Save | Process

fun step :: "op \<Rightarrow> world \<Rightarrow> py_error + world" where
  "step Open w = Inr (open' w)"
| "step Read w = Inr (read w)"
| "step Save w = Inr (save w)"
| "step Process w = process_document w"

fun run :: "op list \<Rightarrow> world \<Rightarrow> py_error + world" where
  "run [] w = Inr w"
| "run (x # xs) w = (case step x w of Inl e \<Rightarrow> Inl e | Inr w' \<Rightarrow> run xs w')"

text \<open>Whether a sequence of operations calls \<open>open\<close>, directly or inside
  \<open>process_document\<close>.\<close>

fun calls_open :: "op list \<Rightarrow> bool" where
  "calls_open [] = False"
| "calls_open (x # xs) = (x = Open \<or> x = Process \<or> calls_open xs)"

fun other :: "variant \<Rightarrow> variant" where
  "other PDFDocument = WordDocument"
| "other WordDocument = PDFDocument"

section \<open>Properties\<close>

lemma abstractmethods_Document: "abstractmethods Document = [''open'', ''save'']"
  by (simp add: abstractmethods_def)

lemma abstractmethods_Concrete: "abstractmethods (Concrete v) = []"
  by (cases v) (simp_all add: abstractmethods_def)

text \<open>
  So the test refuses exactly the abstract class: calling \<open>Document\<close> raises, and
  calling a subclass gives the object that \<open>__init__\<close> sets up.
\<close>

lemma check_abstract_fails_iff: "(\<exists>e. check_abstract c = Inl e) \<longleftrightarrow> c = Document"
  by (cases c)
     (simp_all add: check_abstract_def abstractmethods_Document abstractmethods_Concrete)

lemma instantiate_Document_fails: "instantiate_Document fn = Inl TypeError"
  by (simp add: instantiate_Document_def check_abstract_def abstractmethods_Document)

lemma instantiate_eq: "instantiate v fn = Inr (init v fn)"
  by (simp add: instantiate_def check_abstract_def abstractmethods_Concrete)

subsection \<open>What each call does\<close>

text \<open>
  The methods in closed form: the object after the call and the text added to the
  output. \<open>process_document\<close> always returns, with the suffix appended to the
  placeholder and five texts printed.
\<close>

lemma open'_eq:
  "open' (d, out) =
     (d\<lparr>content := Some (placeholder (kind d))\<rparr>, out @ [open_msg (kind d) (filename d)])"
  by (cases "kind d") (simp_all add: print_def)

lemma save_eq: "save (d, out) = (d, out @ [save_msg (kind d) (filename d)])"
  by (cases "kind d") (simp_all add: print_def)

lemma read_eq:
  "read (d, out) =
     (d, out @ [case content d of None \<Rightarrow> not_loaded_msg (filename d)
                | Some c \<Rightarrow> framed_msg (filename d) c])"
  by (cases "content d") (simp_all add: print_def)

lemma process_document_eq:
  "process_document (d, out) =
     Inr (d\<lparr>content := Some (placeholder (kind d) @ suffix_text)\<rparr>,
          out @ [processing_header (filename d), open_msg (kind d) (filename d),
                 framed_msg (filename d) (placeholder (kind d)),
                 save_msg (kind d) (filename d), finished_msg])"
  by (simp add: open'_eq read_eq save_eq print_def del: open'.simps read.simps save.simps)

text \<open>
  The error branch of the append exists: on an object that was never opened the
  statement raises.
\<close>

lemma append_content_unopened: "append_content (init v fn) s = Inl TypeError"
  by (simp add: init_def)

text \<open>
  Every sequence of calls on a document returns. It keeps the class and the file
  name, and the content is absent afterwards exactly when it was absent before and
  the sequence never called \<open>open\<close>.
\<close>

lemma run_total:
  "\<exists>d' out'. run ops (d, out) = Inr (d', out') \<and> kind d' = kind d \<and> filename d' = filename d
      \<and> (content d' = None \<longleftrightarrow> content d = None \<and> \<not> calls_open ops)"
proof (induction ops arbitrary: d out)
  case Nil
  show ?case by simp
next
  case (Cons x xs)
  obtain d1 out1 where s: "step x (d, out) = Inr (d1, out1)" "kind d1 = kind d"
      "filename d1 = filename d"
      "content d1 = None \<longleftrightarrow> content d = None \<and> x \<noteq> Open \<and> x \<noteq> Process"
    by (cases x) (simp_all add: open'_eq read_eq save_eq process_document_eq
        del: open'.simps read.simps save.simps process_document.simps)
  from Cons.IH [of d1 out1] obtain d' out' where
    r: "run xs (d1, out1) = Inr (d', out') \<and> kind d' = kind d1 \<and> filename d' = filename d1
       \<and> (content d' = None \<longleftrightarrow> content d1 = None \<and> \<not> calls_open xs)"
    by (elim exE) (rule that)
  from s r show ?case by auto
qed


text \<open>
  The loop over a list of documents returns: every document gets the suffix after
  its placeholder, and the five texts of each call are printed in the order of the
  list.
\<close>

lemma process_all_eq:
  "process_all docs out =
     Inr (map (\<lambda>d. d\<lparr>content := Some (placeholder (kind d) @ suffix_text)\<rparr>) docs,
          out @ concat (map (\<lambda>d. [processing_header (filename d), open_msg (kind d) (filename d),
                 framed_msg (filename d) (placeholder (kind d)),
                 save_msg (kind d) (filename d), finished_msg]) docs))"
  by (induction docs arbitrary: out)
     (simp_all add: process_document_eq del: process_document.simps)

lemma main_eq:
  "main out =
     Inr ([\<lparr>kind = PDFDocument, filename = ''annual_report.pdf'',
             content = Some (pdf_placeholder @ suffix_text)\<rparr>,
           \<lparr>kind = WordDocument, filename = ''team_memo.docx'',
             content = Some (word_placeholder @ suffix_text)\<rparr>],
          out @
          [processing_header ''annual_report.pdf'',
           pdf_open_msg ''annual_report.pdf'',
           framed_msg ''annual_report.pdf'' pdf_placeholder,
           pdf_save_msg ''annual_report.pdf'',
           finished_msg,
           processing_header ''team_memo.docx'',
           word_open_msg ''team_memo.docx'',
           framed_msg ''team_memo.docx'' word_placeholder,
           word_save_msg ''team_memo.docx'',
           finished_msg,
           ''\<newline>--- Demonstrating Encapsulation ---'',
           ''Accessing the filename (public attribute): annual_report.pdf'',
           ''Trying to access _content (protected attribute): '' @ pdf_placeholder @ suffix_text,
           ''The leading underscore is a convention telling developers not to modify this directly.'',
           ''Instead, we should use methods like open() and save() to interact with the object's state.''])"
  by (simp add: main_def instantiate_eq init_def process_all_eq print_def
      del: process_all.simps)

text \<open>
  Six elements in two groups of three stay in their order when each group stands
  between two other elements and anything follows.
\<close>

lemma subseq_two_groups:
  "subseq [a, b, c, d, e, f] ([h1, a, b, c, g1, h2, d, e, f, g2] @ rest)"
proof -
  have "subseq [d, e, f] ([d, e, f, g2] @ rest)"
    by (rule prefix_imp_subseq) simp
  then have "subseq [d, e, f] ([g1, h2, d, e, f, g2] @ rest)"
    using list_emb_Cons [OF list_emb_Cons] by simp
  then have "subseq [a, b, c, d, e, f] ([a, b, c, g1, h2, d, e, f, g2] @ rest)"
    using subseq_Cons2 [OF subseq_Cons2 [OF subseq_Cons2]] by simp
  then show ?thesis
    using list_emb_Cons by simp
qed

subsection \<open>Texts contained in the output\<close>

text \<open>
  A text \<open>p\<close> is contained in a text \<open>t\<close> when \<open>sublist p t\<close>: it occurs there
  as a contiguous run of characters. A text without the character \<open>c\<close> that is
  contained in a text around an occurrence of \<open>c\<close> lies on one side of it.
\<close>

lemma sublist_split_at:
  assumes "c \<notin> set p"
  shows "sublist p (xs @ c # ys) \<longleftrightarrow> sublist p xs \<or> sublist p ys"
proof
  assume "sublist p (xs @ c # ys)"
  then consider "sublist p xs" | "sublist p (c # ys)"
    | p1 p2 where "p = p1 @ p2" "suffix p1 xs" "prefix p2 (c # ys)"
    by (auto simp: sublist_append)
  then show "sublist p xs \<or> sublist p ys"
  proof cases
    case 1 then show ?thesis by simp
  next
    case 2
    then have "prefix p (c # ys) \<or> sublist p ys" by (simp add: sublist_Cons_right)
    moreover have "prefix p (c # ys) \<Longrightarrow> p = []"
      using assms by (cases p) auto
    ultimately show ?thesis by auto
  next
    case 3
    have "p2 = []" using 3(1,3) assms by (cases p2) auto
    then have "suffix p xs" using 3 by simp
    then show ?thesis by (simp add: suffix_imp_sublist)
  qed
next
  assume "sublist p xs \<or> sublist p ys"
  then show "sublist p (xs @ c # ys)"
    by (auto simp: sublist_append sublist_Cons_right)
qed

lemma sublist_between_quotes:
  assumes "CHR 0x27 \<notin> set p"
  shows "sublist p (a @ quoted fn @ b @ quoted fn @ c)
           \<longleftrightarrow> sublist p a \<or> sublist p fn \<or> sublist p b \<or> sublist p c"
proof -
  have "a @ quoted fn @ b @ quoted fn @ c
          = a @ CHR 0x27 # (fn @ CHR 0x27 # (b @ CHR 0x27 # (fn @ CHR 0x27 # c)))"
    by (simp add: quoted_def)
  then show ?thesis
    by (simp only: sublist_split_at [OF assms]) blast
qed

text \<open>Of two texts of one length, one contains the other only when they are equal.\<close>

lemma same_length_sublist:
  assumes "length p = length q"
  shows "sublist p q \<longleftrightarrow> p = q"
proof
  assume "sublist p q"
  then obtain ps ss where q: "q = ps @ p @ ss"
    unfolding sublist_def by blast
  from assms have "ps = [] \<and> ss = []"
    unfolding q by simp
  then show "p = q"
    unfolding q by simp
next
  assume "p = q"
  then show "sublist p q" by simp
qed

text \<open>The character stream of \<open>open\<close> followed by \<open>read\<close>, from an empty output.\<close>

lemma rendered_open_read:
  "rendered (snd (read (open' (d, [])))) =
     open_msg (kind d) (filename d) @ ''\<newline>''
       @ framed_msg (filename d) (placeholder (kind d)) @ ''\<newline>''"
  by (simp add: open'_eq read_eq rendered_def del: open'.simps read.simps)

lemma no_quote_pdf: "CHR 0x27 \<notin> set pdf_placeholder"
  by (simp add: pdf_placeholder_def)

lemma no_quote_word: "CHR 0x27 \<notin> set word_placeholder"
  by (simp add: word_placeholder_def)

text \<open>
  The placeholders have no apostrophe and no newline, so inside the two lines
  printed by \<open>open\<close> and \<open>read\<close> the placeholder of the other variant can only
  lie within the file name: the fixed parts of the lines are too short for it, and
  the variant's own placeholder has its length and differs from it.
\<close>

lemma word_in_pdf_output:
  "sublist word_placeholder (pdf_open_msg fn @ ''\<newline>'' @ framed_msg fn pdf_placeholder @ ''\<newline>'')
     \<longleftrightarrow> sublist word_placeholder fn"
proof -
  let ?a = "''Opening PDF ''"
  let ?b = "'' using a PDF reader library...\<newline>Reading content of ''"
  let ?c1 = "'':\<newline>---''"
  let ?c2 = "''\<newline>---\<newline>''"
  have e: "pdf_open_msg fn @ ''\<newline>'' @ framed_msg fn pdf_placeholder @ ''\<newline>''
          = ?a @ quoted fn @ ?b @ quoted fn @ (?c1 @ CHR ''\<newline>'' # (pdf_placeholder @ ?c2))"
    by (simp add: pdf_open_msg_def framed_msg_def)
  have nl: "CHR ''\<newline>'' \<notin> set word_placeholder"
    by (simp add: word_placeholder_def)
  have "\<not> sublist word_placeholder ?a" "\<not> sublist word_placeholder ?b"
    "\<not> sublist word_placeholder ?c1" "\<not> sublist word_placeholder ?c2"
    by (auto dest!: sublist_length_le simp: word_placeholder_def)
  moreover have "\<not> sublist word_placeholder pdf_placeholder"
    by (simp add: same_length_sublist word_placeholder_def pdf_placeholder_def)
  moreover have "sublist word_placeholder (pdf_placeholder @ ?c2)
      \<longleftrightarrow> sublist word_placeholder pdf_placeholder \<or> sublist word_placeholder ''---\<newline>''"
    using sublist_split_at [OF nl, of pdf_placeholder "''---\<newline>''"] by simp
  moreover have "\<not> sublist word_placeholder ''---\<newline>''"
    by (auto dest!: sublist_length_le simp: word_placeholder_def)
  ultimately show ?thesis
    unfolding e sublist_between_quotes [OF no_quote_word] sublist_split_at [OF nl]
    by simp
qed


lemma pdf_in_word_output:
  "sublist pdf_placeholder (word_open_msg fn @ ''\<newline>'' @ framed_msg fn word_placeholder @ ''\<newline>'')
     \<longleftrightarrow> sublist pdf_placeholder fn"
proof -
  let ?a = "''Opening Word document ''"
  let ?b = "'' using a word processor library...\<newline>Reading content of ''"
  let ?c1 = "'':\<newline>---''"
  let ?c2 = "''\<newline>---\<newline>''"
  have e: "word_open_msg fn @ ''\<newline>'' @ framed_msg fn word_placeholder @ ''\<newline>''
          = ?a @ quoted fn @ ?b @ quoted fn @ (?c1 @ CHR ''\<newline>'' # (word_placeholder @ ?c2))"
    by (simp add: word_open_msg_def framed_msg_def)
  have nl: "CHR ''\<newline>'' \<notin> set pdf_placeholder"
    by (simp add: pdf_placeholder_def)
  have "\<not> sublist pdf_placeholder ?a" "\<not> sublist pdf_placeholder ?b"
    "\<not> sublist pdf_placeholder ?c1" "\<not> sublist pdf_placeholder ?c2"
    by (auto dest!: sublist_length_le simp: pdf_placeholder_def)
  moreover have "\<not> sublist pdf_placeholder word_placeholder"
    by (simp add: same_length_sublist word_placeholder_def pdf_placeholder_def)
  moreover have "sublist pdf_placeholder (word_placeholder @ ?c2)
      \<longleftrightarrow> sublist pdf_placeholder word_placeholder \<or> sublist pdf_placeholder ''---\<newline>''"
    using sublist_split_at [OF nl, of word_placeholder "''---\<newline>''"] by simp
  moreover have "\<not> sublist pdf_placeholder ''---\<newline>''"
    by (auto dest!: sublist_length_le simp: pdf_placeholder_def)
  ultimately show ?thesis
    unfolding e sublist_between_quotes [OF no_quote_pdf] sublist_split_at [OF nl]
    by simp
qed

lemma own_placeholder_in_output:
  "sublist (placeholder v) (open_msg v fn @ ''\<newline>'' @ framed_msg fn (placeholder v) @ ''\<newline>'')"
proof -
  have "open_msg v fn @ ''\<newline>'' @ framed_msg fn (placeholder v) @ ''\<newline>''
      = (open_msg v fn @ ''\<newline>'' @ ''Reading content of '' @ quoted fn @ '':\<newline>---\<newline>'')
          @ placeholder v @ ''\<newline>---\<newline>''"
    by (simp add: framed_msg_def)
  then show ?thesis
    unfolding sublist_def by blast
qed

lemma other_placeholder_in_output:
  "sublist (placeholder (other v))
      (open_msg v fn @ ''\<newline>'' @ framed_msg fn (placeholder v) @ ''\<newline>'')
     \<longleftrightarrow> sublist (placeholder (other v)) fn"
  by (cases v)
     (simp_all only: other.simps placeholder.simps open_msg.simps
        word_in_pdf_output pdf_in_word_output)

lemma init_fields: "kind (init v fn) = v" "filename (init v fn) = fn"
  by (simp_all add: init_def)

subsection \<open>The processing routine appends to the placeholder\<close>

text \<open>
  Claim C1. For both variants, \<open>process_document\<close> on a freshly constructed
  instance returns, and the content of the instance is then the placeholder text of
  its variant followed by the suffix \<open>"\n[Appended by processing script]"\<close>.
\<close>

theorem process_document_appends:
  "\<exists>d d' out'. instantiate v fn = Inr d
     \<and> process_document (d, out) = Inr (d', out')
     \<and> content d' = Some (placeholder v @ suffix_text)"
  by (simp add: instantiate_eq process_document_eq init_def
      del: process_document.simps)

theorem process_document_appends_witness:
  "\<exists>d d' out'. instantiate PDFDocument ''annual_report.pdf'' = Inr d
     \<and> process_document (d, []) = Inr (d', out')
     \<and> content d' = Some ''This is the complex, binary-formatted content of a PDF file.\<newline>[Appended by processing script]''"
  using process_document_appends [of PDFDocument "''annual_report.pdf''" "[]"]
  by (simp add: pdf_placeholder_def suffix_text_def)

subsection \<open>What read prints\<close>



subsection \<open>The content is absent exactly until open is called\<close>

text \<open>
  Claim C4. On every state reached from a constructed document by the public
  operations (\<open>open\<close>, \<open>read\<close>, \<open>save\<close>, \<open>process_document\<close>, in any order and any
  number), the content is absent exactly as long as \<open>open\<close> has not been called:
  it is absent after construction, every sequence of operations returns, and the
  content is absent afterwards if and only if the sequence called \<open>open\<close> neither
  directly nor through \<open>process_document\<close>. So it is present after the first
  \<open>open\<close> and stays present.
\<close>

theorem content_absent_until_open:
  "\<exists>d d' out'. instantiate v fn = Inr d \<and> content d = None
     \<and> run ops (d, out) = Inr (d', out')
     \<and> (content d' = None \<longleftrightarrow> \<not> calls_open ops)"
  using run_total [of ops "init v fn" out]
  by (auto simp: instantiate_eq init_def)

theorem content_absent_until_open_witness:
  "\<exists>d d1 d2 o1 o2. instantiate PDFDocument ''a.pdf'' = Inr d \<and> content d = None
     \<and> run [Read, Save, Read] (d, []) = Inr (d1, o1) \<and> content d1 = None
     \<and> run [Read, Open, Save] (d, []) = Inr (d2, o2) \<and> content d2 \<noteq> None"
  using content_absent_until_open [of PDFDocument "''a.pdf''" "[Read, Save, Read]" "[]"]
    content_absent_until_open [of PDFDocument "''a.pdf''" "[Read, Open, Save]" "[]"]
  by (auto simp: instantiate_eq init_def)

subsection \<open>Only the abstract class fails to construct\<close>

text \<open>
  Claim C5. Instantiating the abstract class \<open>Document\<close> itself raises
  \<open>TypeError\<close> at construction, because its methods \<open>open\<close> and \<open>save\<close> are
  abstract, and that is the only failure of the system: the test at construction
  refuses no other class, so both subclasses construct; every sequence of \<open>open\<close>,
  \<open>read\<close>, \<open>save\<close> and \<open>process_document\<close> on any document returns; and the main
  block returns.
\<close>

theorem abstract_instantiation_only_failure:
  "instantiate_Document fn = Inl TypeError
   \<and> abstractmethods Document = [''open'', ''save'']
   \<and> ((\<exists>e. check_abstract c = Inl e) \<longleftrightarrow> c = Document)
   \<and> (\<exists>d0. instantiate v fn = Inr d0)
   \<and> (\<exists>w. run ops (d, out) = Inr w)
   \<and> (\<exists>w. main out = Inr w)"
proof -
  have "\<exists>d0. instantiate v fn = Inr d0"
    by (simp add: instantiate_eq)
  moreover have "\<exists>w. run ops (d, out) = Inr w"
    using run_total [of ops d out] by blast
  moreover have "\<exists>w. main out = Inr w"
    by (simp add: main_eq)
  ultimately show ?thesis
    using instantiate_Document_fails [of fn] abstractmethods_Document
      check_abstract_fails_iff [of c]
    by simp
qed

theorem abstract_instantiation_only_failure_witness:
  "instantiate_Document ''annual_report.pdf'' = Inl TypeError
   \<and> (\<exists>e. check_abstract Document = Inl e)
   \<and> (\<nexists>e. check_abstract (Concrete WordDocument) = Inl e)
   \<and> (\<exists>d. instantiate PDFDocument ''annual_report.pdf'' = Inr d)
   \<and> (\<exists>w. run [Read, Process, Open, Save] (init WordDocument ''team_memo.docx'', []) = Inr w)
   \<and> (\<exists>w. main [] = Inr w)"
  using abstract_instantiation_only_failure
    [of "''annual_report.pdf''" Document PDFDocument "[Read, Process, Open, Save]"
        "init WordDocument ''team_memo.docx''" "[]"]
    abstract_instantiation_only_failure
    [of "''annual_report.pdf''" "Concrete WordDocument" PDFDocument "[]"
        "init WordDocument ''team_memo.docx''" "[]"]
  by simp

subsection \<open>The output of the main block\<close>

text \<open>
  Claim C6. The main block processes the PDF document \<open>annual_report.pdf\<close> and
  then the Word document \<open>team_memo.docx\<close>. It returns, and its output has, in
  this order, the PDF open message, the text \<open>read\<close> prints for the PDF document,
  the PDF save message, the Word open message, the text \<open>read\<close> prints for the
  Word document and the Word save message. The output starts with the ten texts
  of the two calls of \<open>process_document\<close>, in which each group of three stands
  between the header and the closing line of its call.
\<close>

theorem main_output_order:
  "\<exists>docs out rest. main [] = Inr (docs, out)
     \<and> out = [processing_header ''annual_report.pdf'',
              pdf_open_msg ''annual_report.pdf'',
              framed_msg ''annual_report.pdf'' pdf_placeholder,
              pdf_save_msg ''annual_report.pdf'',
              finished_msg,
              processing_header ''team_memo.docx'',
              word_open_msg ''team_memo.docx'',
              framed_msg ''team_memo.docx'' word_placeholder,
              word_save_msg ''team_memo.docx'',
              finished_msg] @ rest
     \<and> subseq [pdf_open_msg ''annual_report.pdf'',
                framed_msg ''annual_report.pdf'' pdf_placeholder,
                pdf_save_msg ''annual_report.pdf'',
                word_open_msg ''team_memo.docx'',
                framed_msg ''team_memo.docx'' word_placeholder,
                word_save_msg ''team_memo.docx''] out"
proof -
  let ?docs = "[\<lparr>kind = PDFDocument, filename = ''annual_report.pdf'',
                  content = Some (pdf_placeholder @ suffix_text)\<rparr>,
                \<lparr>kind = WordDocument, filename = ''team_memo.docx'',
                  content = Some (word_placeholder @ suffix_text)\<rparr>]"
  let ?processing = "[processing_header ''annual_report.pdf'',
           pdf_open_msg ''annual_report.pdf'',
           framed_msg ''annual_report.pdf'' pdf_placeholder,
           pdf_save_msg ''annual_report.pdf'',
           finished_msg,
           processing_header ''team_memo.docx'',
           word_open_msg ''team_memo.docx'',
           framed_msg ''team_memo.docx'' word_placeholder,
           word_save_msg ''team_memo.docx'',
           finished_msg]"
  let ?encapsulation = "[''\<newline>--- Demonstrating Encapsulation ---'',
           ''Accessing the filename (public attribute): annual_report.pdf'',
           ''Trying to access _content (protected attribute): '' @ pdf_placeholder @ suffix_text,
           ''The leading underscore is a convention telling developers not to modify this directly.'',
           ''Instead, we should use methods like open() and save() to interact with the object's state.'']"
  have m: "main [] = Inr (?docs, ?processing @ ?encapsulation)"
    unfolding main_eq [of "[]"] by simp
  have s: "subseq [pdf_open_msg ''annual_report.pdf'',
                framed_msg ''annual_report.pdf'' pdf_placeholder,
                pdf_save_msg ''annual_report.pdf'',
                word_open_msg ''team_memo.docx'',
                framed_msg ''team_memo.docx'' word_placeholder,
                word_save_msg ''team_memo.docx''] (?processing @ ?encapsulation)"
    by (rule subseq_two_groups)
  show ?thesis
    apply (intro exI conjI)
      apply (rule m)
     apply (rule refl)
    apply (rule s)
    done
qed

subsection \<open>save only prints\<close>

text \<open>
  Claim C7. For every document in every state, also with the content absent,
  \<open>save\<close> returns, prints one descriptive message and nothing else, and leaves
  the document (name and content) as it was.
\<close>

theorem save_only_prints: "save (d, out) = (d, out @ [save_msg (kind d) (filename d)])"
  by (cases "kind d") (simp_all add: print_def)

theorem save_only_prints_witness:
  "save (init PDFDocument ''annual_report.pdf'', [])
     = (\<lparr>kind = PDFDocument, filename = ''annual_report.pdf'', content = None\<rparr>,
        [''Saving content to PDF 'annual_report.pdf' with specific PDF formatting...''])"
  using save_only_prints [of "init PDFDocument ''annual_report.pdf''" "[]"]
  by (simp add: init_def pdf_save_msg_def quoted_def)

subsection \<open>The file name never changes\<close>

text \<open>
  Claim C8. The file name of a document is the one it was constructed with after
  every operation of the system: after any sequence of \<open>open\<close>, \<open>read\<close>, \<open>save\<close>
  and \<open>process_document\<close> on a constructed document, the sequence has returned
  and the file name is still the constructor's argument.
\<close>

theorem filename_immutable:
  "\<exists>d d' out'. instantiate v fn = Inr d \<and> filename d = fn
     \<and> run ops (d, out) = Inr (d', out') \<and> filename d' = fn"
  using run_total [of ops "init v fn" out]
  by (auto simp: instantiate_eq init_def)

theorem filename_immutable_witness:
  "\<exists>d d' out'. instantiate WordDocument ''team_memo.docx'' = Inr d
     \<and> filename d = ''team_memo.docx''
     \<and> run [Open, Read, Process, Save] (d, []) = Inr (d', out')
     \<and> filename d' = ''team_memo.docx''"
  using filename_immutable [of WordDocument "''team_memo.docx''" "[Open, Read, Process, Save]" "[]"]
  by simp

subsection \<open>open overwrites the content\<close>

text \<open>
  Claim C9. \<open>open\<close> overwrites and does not append: in every state of a document,
  whatever its content, the document after \<open>open\<close> is the one before with the
  content set to exactly the placeholder of its variant. So a second \<open>open\<close>
  leaves the document as the first did (only the message is printed again), and
  \<open>open\<close> after \<open>process_document\<close> discards the appended suffix.
\<close>

theorem open_overwrites:
  "fst (open' (d, out)) = d\<lparr>content := Some (placeholder (kind d))\<rparr>
   \<and> fst (open' (open' (d, out))) = fst (open' (d, out))
   \<and> (\<exists>d1 out1. process_document (d, out) = Inr (d1, out1)
         \<and> content d1 = Some (placeholder (kind d) @ suffix_text)
         \<and> fst (open' (d1, out1)) = d\<lparr>content := Some (placeholder (kind d))\<rparr>)"
  by (simp add: open'_eq process_document_eq del: open'.simps process_document.simps)

theorem open_overwrites_witness:
  "fst (open' (\<lparr>kind = PDFDocument, filename = ''a.pdf'', content = Some ''old text''\<rparr>, []))
     = \<lparr>kind = PDFDocument, filename = ''a.pdf'',
        content = Some ''This is the complex, binary-formatted content of a PDF file.''\<rparr>"
  using open_overwrites [of "\<lparr>kind = PDFDocument, filename = ''a.pdf'', content = Some ''old text''\<rparr>" "[]"]
  by (simp add: pdf_placeholder_def)

subsection \<open>The append inside the processing routine never fails\<close>

text \<open>
  Claim C10. Inside \<open>process_document\<close> the append to the content never raises:
  for every document, at the point of the append (after the header is printed and
  \<open>open\<close> and \<open>read\<close> have run) the content is a string, namely the placeholder,
  so the append takes its successful branch and \<open>process_document\<close> returns.
\<close>

theorem append_never_fails:
  "\<exists>d3 out3 d4 w.
     read (open' (d, print (processing_header (filename d)) out)) = (d3, out3)
     \<and> content d3 = Some (placeholder (kind d))
     \<and> append_content d3 suffix_text = Inr d4
     \<and> process_document (d, out) = Inr w"
  by (simp add: open'_eq read_eq process_document_eq
      del: open'.simps read.simps process_document.simps)

theorem append_never_fails_witness:
  "\<exists>d3 out3 d4 w.
     read (open' (init WordDocument ''m.docx'', print (processing_header ''m.docx'') [])) = (d3, out3)
     \<and> content d3 = Some word_placeholder
     \<and> append_content d3 suffix_text = Inr d4
     \<and> process_document (init WordDocument ''m.docx'', []) = Inr w"
  using append_never_fails [of "init WordDocument ''m.docx''" "[]"]
  by (simp add: init_def)

subsection \<open>The placeholder texts in the output of open and read\<close>

text \<open>
  Claim C2, as the code has it. For both variants and every document of the
  variant, the output of \<open>open\<close> followed by \<open>read\<close> contains the placeholder text
  of the variant; it contains the placeholder text of the other variant exactly
  when the file name of the document contains it, so it does not contain it when
  the file name does not. Both messages print the file name, and nothing
  restricts the file name.
\<close>

theorem open_read_output:
  "sublist (placeholder (kind d)) (rendered (snd (read (open' (d, [])))))
   \<and> (sublist (placeholder (other (kind d))) (rendered (snd (read (open' (d, [])))))
        \<longleftrightarrow> sublist (placeholder (other (kind d))) (filename d))"
  unfolding rendered_open_read
  by (intro conjI own_placeholder_in_output other_placeholder_in_output)

theorem open_read_output_witness:
  "sublist pdf_placeholder
     (rendered (snd (read (open' (init PDFDocument ''annual_report.pdf'', [])))))
   \<and> \<not> sublist word_placeholder
     (rendered (snd (read (open' (init PDFDocument ''annual_report.pdf'', [])))))"
proof -
  have "\<not> sublist word_placeholder ''annual_report.pdf''"
    by (auto dest!: sublist_length_le simp: word_placeholder_def)
  then show ?thesis
    using open_read_output [of "init PDFDocument ''annual_report.pdf''"]
    by (simp add: init_fields)
qed

text \<open>
  Claim C2 as first stated, without the condition on the file name, fails in its
  second half: a PDF document whose file name is the placeholder text of the
  Word variant prints that text.
\<close>

theorem open_read_output_counterexample:
  "sublist word_placeholder
     (rendered (snd (read (open'
        (init PDFDocument ''This is the rich-text, XML-based content of a Word document.'', [])))))"
proof -
  have "sublist (placeholder (other PDFDocument))
     (rendered (snd (read (open' (init PDFDocument word_placeholder, [])))))"
    unfolding rendered_open_read init_fields other_placeholder_in_output
    by simp
  then show ?thesis
    by (simp add: word_placeholder_def)
qed

end
